theory Spec2Isabelle
  imports Complex_Main "HOL-Library.Sublist"
begin

section \<open>Python text primitives\<close>

text \<open>
  A Python \<open>str\<close> is a sequence of code points. The model keeps the code points below
  256 (Latin-1), one \<^typ>\<open>char\<close> each, so \<^typ>\<open>string\<close> stands for such a \<open>str\<close> and
  \<^term>\<open>of_char c :: nat\<close> is the code point. The character classes below are Python's,
  cut to that range. A Python \<open>float\<close> is modelled by a \<^typ>\<open>real\<close>: the arithmetic
  of the scorers is the exact one, without rounding error, NaN or infinities.
\<close>

definition isspace :: "char \<Rightarrow> bool" where
  \<comment> \<open>\<open>str.isspace\<close>, also the set that \<open>str.strip()\<close> removes and that \<open>\s\<close> matches\<close>
  "isspace c =
     (let n = (of_char c :: nat)
      in (9 \<le> n \<and> n \<le> 13) \<or> (28 \<le> n \<and> n \<le> 32) \<or> n = 133 \<or> n = 160)"

definition strip :: "string \<Rightarrow> string" where
  "strip s = rev (dropWhile isspace (rev (dropWhile isspace s)))"

definition lower_char :: "char \<Rightarrow> char" where
  "lower_char c =
     (let n = (of_char c :: nat)
      in if (65 \<le> n \<and> n \<le> 90) \<or> (192 \<le> n \<and> n \<le> 222 \<and> n \<noteq> 215)
         then char_of (n + 32) else c)"

definition lower :: "string \<Rightarrow> string" where
  "lower s = map lower_char s"

definition isprintable :: "char \<Rightarrow> bool" where
  "isprintable c =
     (let n = (of_char c :: nat)
      in (32 \<le> n \<and> n \<le> 126) \<or> (161 \<le> n \<and> n \<noteq> 173))"

text \<open>
  The test \<open>kw in s\<close> on two strings is \<^term>\<open>sublist kw s\<close>: \<open>kw\<close> occurs in \<open>s\<close> as a
  contiguous block.
\<close>

section \<open>The line parser (\<open>ChatParser\<close> in \<open>backend/services/nlp_service.py\<close>)\<close>

definition isdigit :: "char \<Rightarrow> bool" where
  \<comment> \<open>what \<open>\d\<close> matches\<close>
  "isdigit c = (let n = (of_char c :: nat) in 48 \<le> n \<and> n \<le> 57)"

definition is_linebreak :: "char \<Rightarrow> bool" where
  \<comment> \<open>the line boundaries of \<open>str.splitlines\<close>\<close>
  "is_linebreak c =
     (let n = (of_char c :: nat)
      in (10 \<le> n \<and> n \<le> 13) \<or> (28 \<le> n \<and> n \<le> 30) \<or> n = 133)"

text \<open>
  \<open>str.splitlines()\<close>: a carriage return followed by a line feed is one boundary, and no
  empty line is reported after a final boundary. \<open>cur\<close> holds the line read so far,
  reversed.
\<close>

fun splitlines_from :: "string \<Rightarrow> string \<Rightarrow> string list" where
  "splitlines_from cur [] = (if cur = [] then [] else [rev cur])"
| "splitlines_from cur (c # cs) =
     (if c = CHR 0x0D \<and> cs \<noteq> [] \<and> hd cs = CHR 0x0A
      then rev cur # splitlines_from [] (tl cs)
      else if is_linebreak c then rev cur # splitlines_from [] cs
      else splitlines_from (c # cur) cs)"

definition splitlines :: "string \<Rightarrow> string list" where
  "splitlines s = splitlines_from [] s"

subsection \<open>The regular expressions of \<open>START_RE\<close>\<close>

text \<open>
  The constructs that \<open>START_RE\<close> uses: one character of a class, a class repeated
  between \<open>lo\<close> and \<open>hi\<close> times (greedy, or lazy as in \<open>+?\<close>), concatenation,
  alternation, a greedy optional part, and a named group. \<open>rmatch\<close> lists the ways to
  match at the head of the input in the order in which the backtracking matcher of
  Python's \<open>re\<close> tries them: each is the input left and the groups captured. The
  match that \<open>re.match\<close> returns is the first.
\<close>

datatype re =
    Cls "char \<Rightarrow> bool"
  | Rep "char \<Rightarrow> bool" nat "nat option" bool
  | Conc re re
  | Alt re re
  | Opt re
  | Grp string re

type_synonym mstate = "string \<times> (string \<times> string) list"

definition rep_counts :: "nat \<Rightarrow> nat option \<Rightarrow> bool \<Rightarrow> nat \<Rightarrow> nat list" where
  "rep_counts lo hi greedy avail =
     (let top = (case hi of None \<Rightarrow> avail | Some h \<Rightarrow> min h avail)
      in if greedy then rev [lo..<Suc top] else [lo..<Suc top])"

fun rmatch :: "re \<Rightarrow> mstate \<Rightarrow> mstate list" where
  "rmatch (Cls p) (s, caps) =
     (case s of [] \<Rightarrow> [] | c # cs \<Rightarrow> if p c then [(cs, caps)] else [])"
| "rmatch (Rep p lo hi greedy) (s, caps) =
     map (\<lambda>k. (drop k s, caps)) (rep_counts lo hi greedy (length (takeWhile p s)))"
| "rmatch (Conc a b) st = concat (map (rmatch b) (rmatch a st))"
| "rmatch (Alt a b) st = rmatch a st @ rmatch b st"
| "rmatch (Opt a) st = rmatch a st @ [st]"
| "rmatch (Grp name a) (s, caps) =
     map (\<lambda>(s', caps'). (s', (name, take (length s - length s') s) # caps'))
       (rmatch a (s, caps))"

definition re_match :: "re \<Rightarrow> string \<Rightarrow> (string \<times> string) list option" where
  "re_match r s =
     (case rmatch r (s, []) of [] \<Rightarrow> None | (rest, caps) # others \<Rightarrow> Some caps)"

definition lit :: "char \<Rightarrow> re" where
  "lit c = Cls (\<lambda>x. x = c)"

definition digits :: "nat \<Rightarrow> nat \<Rightarrow> re" where
  "digits lo hi = Rep isdigit lo (Some hi) True"

definition spaces :: re where
  "spaces = Rep isspace 0 None True"

definition date_sep :: "char \<Rightarrow> bool" where
  "date_sep c = (c = CHR ''/'' \<or> c = CHR ''-'')"

definition am_pm_letter :: "char \<Rightarrow> bool" where
  "am_pm_letter c = (c \<in> set ''APMapm'')"

definition not_colon :: "char \<Rightarrow> bool" where
  "not_colon c = (c \<noteq> CHR '':'')"

definition dot :: "char \<Rightarrow> bool" where
  \<comment> \<open>\<open>.\<close> matches every character but the line feed\<close>
  "dot c = (c \<noteq> CHR 0x0A)"

fun seqs :: "re list \<Rightarrow> re" where
  "seqs [r] = r"
| "seqs (r # rs) = Conc r (seqs rs)"
| "seqs [] = Opt (Cls (\<lambda>x. False))"

text \<open>
  \<^verbatim>\<open>^(?P<date>\d{1,2}[\/\-]\d{1,2}[\/\-]\d{2,4}|\d{4}[\-]\d{1,2}[\-]\d{1,2}),?\s*\<close>
  \<^verbatim>\<open>(?P<time>\d{1,2}:\d{2}(?::\d{2})?(?:\s*[APMapm]{2})?)\s*-\s*(?P<sender>[^:]+?):\s*(?P<message>.*)\<close>
  The anchor \<open>^\<close> holds at the head of the line, where \<open>re.match\<close> starts.
\<close>

definition START_RE :: re where
  "START_RE = seqs
     [Grp ''date''
        (Alt (seqs [digits 1 2, Cls date_sep, digits 1 2, Cls date_sep, digits 2 4])
             (seqs [digits 4 4, lit CHR ''-'', digits 1 2, lit CHR ''-'', digits 1 2])),
      Opt (lit CHR '',''),
      spaces,
      Grp ''time''
        (seqs [digits 1 2, lit CHR '':'', digits 2 2,
               Opt (Conc (lit CHR '':'') (digits 2 2)),
               Opt (Conc spaces (Rep am_pm_letter 2 (Some 2) True))]),
      spaces, lit CHR ''-'', spaces,
      Grp ''sender'' (Rep not_colon 1 None False),
      lit CHR '':'',
      spaces,
      Grp ''message'' (Rep dot 0 None True)]"

definition START_RE_match :: "string \<Rightarrow> (string \<times> string \<times> string \<times> string) option" where
  \<comment> \<open>\<open>START_RE.match(line)\<close> with its groups \<open>date\<close>, \<open>time\<close>, \<open>sender\<close>, \<open>message\<close>\<close>
  "START_RE_match line =
     (case re_match START_RE line of
        None \<Rightarrow> None
      | Some caps \<Rightarrow>
          (case (map_of caps ''date'', map_of caps ''time'', map_of caps ''sender'',
                 map_of caps ''message'') of
             (Some d, Some t, Some s, Some m) \<Rightarrow> Some (d, t, s, m)
           | _ \<Rightarrow> None))"

subsection \<open>\<open>ChatParser.parse\<close>\<close>

record parsed_message =
  timestamp :: string
  raw_timestamp :: string
  sender :: string
  message :: string

text \<open>
  \<open>datetime.strptime(ts, fmt).isoformat()\<close> is the standard library's: a parameter that
  gives the ISO text, or \<open>None\<close> where \<open>strptime\<close> raises.
\<close>

type_synonym strptime = "string \<Rightarrow> string \<Rightarrow> string option"

definition timestamp_formats :: "string list" where
  "timestamp_formats =
     [''%m/%d/%Y, %I:%M %p'', ''%m/%d/%y, %I:%M %p'', ''%d/%m/%Y, %H:%M'',
      ''%Y-%m-%d, %H:%M'', ''%m/%d/%Y, %H:%M'']"

fun try_formats :: "strptime \<Rightarrow> string \<Rightarrow> string list \<Rightarrow> string" where
  "try_formats sp ts [] = ts"
| "try_formats sp ts (fmt # fmts) =
     (case sp ts fmt of Some parsed \<Rightarrow> parsed | None \<Rightarrow> try_formats sp ts fmts)"

definition system_aliases :: "string list" where
  "system_aliases = [''system'', ''you'', ''group notification'']"

definition system_keywords :: "string list" where
  "system_keywords = [''secured'', ''created group'', ''changed'', ''left group'', ''added'']"

type_synonym parse_state = "parsed_message list \<times> string list"

text \<open>
  The body of the loop of \<open>parse\<close> on one line, from the messages and failed lines so far
  to the new ones.
\<close>

definition parse_line :: "strptime \<Rightarrow> parse_state \<Rightarrow> string \<Rightarrow> parse_state" where
  "parse_line sp st line =
     (case st of (messages, failed_lines) \<Rightarrow>
        if strip line = [] then (messages, failed_lines)
        else
          (case START_RE_match line of
             Some (date_str, time_str, sender_group, message_group) \<Rightarrow>
               (let msg_content = strip message_group;
                    sender_name = strip (filter isprintable (strip sender_group));
                    sender_final =
                      (if lower sender_name \<in> set system_aliases
                          \<or> list_ex (\<lambda>kw. sublist kw (lower msg_content)) system_keywords
                       then ''System'' else sender_name);
                    ts = date_str @ '', '' @ time_str;
                    iso_ts = try_formats sp ts timestamp_formats
                in (messages @
                      [\<lparr>timestamp = iso_ts, raw_timestamp = ts,
                        sender = sender_final, message = msg_content\<rparr>],
                    failed_lines))
           | None \<Rightarrow>
               if messages \<noteq> []
               then (butlast messages @
                       [(last messages)
                          \<lparr>message := message (last messages) @ [CHR 0x0A] @ strip line\<rparr>],
                     failed_lines)
               else (messages, failed_lines @ [line])))"

text \<open>The loop of \<open>parse\<close>, from any state; \<open>parse\<close> starts it with no message and no failed line.\<close>

definition parse_from :: "strptime \<Rightarrow> parse_state \<Rightarrow> string list \<Rightarrow> parse_state" where
  "parse_from sp st ls = foldl (parse_line sp) st ls"

definition parse_lines :: "strptime \<Rightarrow> string list \<Rightarrow> parse_state" where
  "parse_lines sp ls = parse_from sp ([], []) ls"

definition parse :: "strptime \<Rightarrow> string \<Rightarrow> parse_state" where
  "parse sp content = parse_lines sp (splitlines content)"

section \<open>The sentiment service (\<open>backend/services/sentiment.py\<close>)\<close>

type_synonym exn = string

record scorer_result =
  score :: real
  label :: string

record ensemble_result = scorer_result +
  confidence :: real

text \<open>
  What \<open>_to_score\<close> can be handed: a falsy value (\<open>None\<close>, an empty dict or list), a dict
  with a \<open>score\<close> key, the output list of a transformer pipeline (the label and score of
  its first item), or any other value.
\<close>

datatype score_arg =
    Falsy
  | Score_dict scorer_result
  | Pipeline_out string real
  | Unscored

fun to_score :: "score_arg \<Rightarrow> real" where
  "to_score Falsy = 0.0"
| "to_score (Score_dict val) = score val"
| "to_score (Pipeline_out item_label sc) =
     (let lab = lower item_label
      in if sublist ''neg'' lab \<or> sublist ''negative'' lab then - sc else sc)"
| "to_score Unscored = 0.0"

definition ensemble_scores :: "score_arg \<Rightarrow> score_arg \<Rightarrow> ensemble_result" where
  "ensemble_scores vader textblob =
     (let vader_norm = to_score vader;
          textblob_norm = to_score textblob;
          ensemble_score = vader_norm * 0.6 + textblob_norm * 0.4;
          ensemble_label =
            (if ensemble_score \<ge> 0.05 then ''Positive''
             else if ensemble_score \<le> - 0.05 then ''Negative''
             else ''Neutral'');
          agreement = 1.0 - (\<bar>vader_norm - textblob_norm\<bar> / 2);
          conf = \<bar>ensemble_score\<bar> * max 0.0 (min 1.0 agreement)
      in \<lparr>score = ensemble_score, label = ensemble_label, confidence = min conf 1.0\<rparr>)"

text \<open>
  The two lexical scorers and the optional transformer pipelines are libraries outside the
  repository: they are parameters. A scorer raises (\<open>Inl\<close>) or returns its score. The
  transformer block of \<open>analyze\<close> catches every exception of its own, so it is a total
  function to the two optional results.
\<close>

record transformer_result =
  norm_score :: real
  pipeline_label :: string

record scorers =
  polarity_scores :: "string \<Rightarrow> exn + real"
  textblob_polarity :: "string \<Rightarrow> exn + real"
  run_transformers :: "string \<Rightarrow> transformer_result option \<times> transformer_result option"

datatype scorer_call = Vader_call string | TextBlob_call string | Transformers_tried string

definition analyze_vader :: "scorers \<Rightarrow> string \<Rightarrow> exn + scorer_result" where
  "analyze_vader S text =
     (case polarity_scores S text of
        Inl e \<Rightarrow> Inl e
      | Inr compound \<Rightarrow>
          Inr \<lparr>score = compound,
               label = (if compound \<ge> 0.05 then ''Positive''
                        else if compound \<le> - 0.05 then ''Negative''
                        else ''Neutral'')\<rparr>)"

definition analyze_textblob :: "scorers \<Rightarrow> string \<Rightarrow> scorer_result" where
  "analyze_textblob S text =
     (case textblob_polarity S text of
        Inl e \<Rightarrow> \<lparr>score = 0.0, label = ''Neutral''\<rparr>
      | Inr polarity \<Rightarrow>
          \<lparr>score = polarity,
           label = (if polarity > 0.1 then ''Positive''
                    else if polarity < - 0.1 then ''Negative''
                    else ''Neutral'')\<rparr>)"

text \<open>
  The result dict of \<open>analyze\<close>. The two transformer keys exist only on the path that ran
  the scorers: \<open>transformers\<close> is \<open>None\<close> when the keys are absent.
\<close>

record sentiment =
  vader_score :: real
  vader_label :: string
  textblob_score :: real
  textblob_label :: string
  ensemble_score :: real
  ensemble_label :: string
  confidence :: real
  transformers :: "(transformer_result option \<times> transformer_result option) option"

definition neutral_sentiment :: sentiment where
  "neutral_sentiment =
     \<lparr>vader_score = 0.0, vader_label = ''Neutral'',
      textblob_score = 0.0, textblob_label = ''Neutral'',
      ensemble_score = 0.0, ensemble_label = ''Neutral'',
      confidence = 0.0, transformers = None\<rparr>"

text \<open>
  \<open>analyze\<close> returns its dict together with the scorer invocations it made, in order:
  the call of VADER, the call of TextBlob, and the entry into the optional transformer
  block. \<open>_analyze_vader\<close> has no handler of its own: its exception reaches the handler
  of \<open>analyze\<close>, which returns the all-neutral dict.
\<close>

definition analyze :: "scorers \<Rightarrow> string \<Rightarrow> sentiment \<times> scorer_call list" where
  "analyze S text =
     (if strip text = [] then (neutral_sentiment, [])
      else
        (case analyze_vader S text of
           Inl e \<Rightarrow> (neutral_sentiment, [Vader_call text])
         | Inr vader_result \<Rightarrow>
             (let textblob_result = analyze_textblob S text;
                  transformer_results = run_transformers S text;
                  ensemble = ensemble_scores (Score_dict vader_result) (Score_dict textblob_result)
              in (\<lparr>vader_score = score vader_result,
                   vader_label = label vader_result,
                   textblob_score = score textblob_result,
                   textblob_label = label textblob_result,
                   ensemble_score = score ensemble,
                   ensemble_label = label ensemble,
                   confidence = ensemble_result.confidence ensemble,
                   transformers = Some transformer_results\<rparr>,
                  [Vader_call text, TextBlob_call text, Transformers_tried text]))))"

section \<open>The explanation engine (\<open>backend/services/explainable_ai_service.py\<close>)\<close>





definition score_to_label :: "real \<Rightarrow> string" where
  "score_to_label sc =
     (if sc > 0.1 then ''Positive''
      else if sc < - 0.1 then ''Negative''
      else ''Neutral'')"

definition mixed_reason :: string where
  "mixed_reason =
     ''Large difference in scores suggests mixed or complex sentiment. '' @
     ''Text may contain sarcasm, irony, or both positive and negative elements.''"

definition subtle_reason :: string where
  "subtle_reason =
     ''Models are close but on opposite sides of neutral. '' @
     ''Text likely has subtle sentiment indicators that differ in interpretation.''"

definition explain_disagreement :: "real \<Rightarrow> real \<Rightarrow> string" where
  "explain_disagreement vader_sc textblob_sc =
     (if \<bar>vader_sc - textblob_sc\<bar> > 0.5 then mixed_reason else subtle_reason)"

record disagreement_info =
  disagreement :: bool
  vader_says :: string
  textblob_says :: string
  possible_reason :: string
  recommendation :: string

definition find_disagreements :: "real \<Rightarrow> real \<Rightarrow> disagreement_info option" where
  "find_disagreements vader_sc textblob_sc =
     (let vader_lab = score_to_label vader_sc;
          textblob_lab = score_to_label textblob_sc
      in if vader_lab = textblob_lab then None
         else Some \<lparr>disagreement = True,
                    vader_says = vader_lab,
                    textblob_says = textblob_lab,
                    possible_reason = explain_disagreement vader_sc textblob_sc,
                    recommendation = ''Manual review recommended for this message''\<rparr>)"

section \<open>The chat analysis (\<open>NLPService.analyze_chat\<close> in \<open>backend/services/nlp_service.py\<close>)\<close>

text \<open>
  An analysed message carries the four fields of the parsed message (its \<open>timestamp\<close> is
  \<open>ts or raw_ts\<close>), the values that \<open>analyze\<close> returned for its text (the source copies
  them into a \<open>sentiment\<close> dict, all but \<open>textblob_label\<close>), and its annotations: language,
  translation, emotions, keywords, emojis and media. The annotators are a parameter
  \<open>annotate\<close>; an exception of one of them leaves the loop and reaches the handler of
  \<open>analyze_chat\<close>. So does an exception of the aggregations after the loop, the
  parameter \<open>aggregate\<close>.
\<close>

record 'x analyzed_message = parsed_message +
  sentiment_of :: sentiment
  annotations :: 'x

type_synonym 'x loop_state = "'x analyzed_message list \<times> real list"

fun analyze_loop ::
  "scorers \<Rightarrow> (string \<Rightarrow> exn + 'x) \<Rightarrow> parsed_message list \<Rightarrow> 'x loop_state
     \<Rightarrow> exn + 'x loop_state" where
  "analyze_loop S annotate [] acc = Inr acc"
| "analyze_loop S annotate (msg # rest) acc =
     (case acc of (analyzed_messages, sentiments) \<Rightarrow>
        (let text = message msg
         in if text = ''<Media omitted>'' \<or> strip text = []
            then analyze_loop S annotate rest acc
            else
              (let sent = fst (analyze S text)
               in case annotate text of
                    Inl e \<Rightarrow> Inl e
                  | Inr notes \<Rightarrow>
                      analyze_loop S annotate rest
                        (analyzed_messages @
                           [\<lparr>timestamp = (if timestamp msg \<noteq> [] then timestamp msg
                                           else raw_timestamp msg),
                             raw_timestamp = raw_timestamp msg,
                             sender = sender msg,
                             message = text,
                             sentiment_of = sent,
                             annotations = notes\<rparr>],
                         sentiments @ [ensemble_score sent]))))"

record ('x, 'g) chat_report =
  total_messages :: nat
  overall_score :: real
  overall_label :: string
  report_messages :: "'x analyzed_message list"
  aggregates :: 'g
  debug_failed_lines :: "string list"
  debug_parsed_messages :: nat

text \<open>
  The three shapes of the dict that \<open>analyze_chat\<close> returns: the error of its handler,
  the report of a chat without a message (with the number of failed lines), and the
  full report.
\<close>

datatype ('x, 'g) chat_analysis =
    Analysis_failed exn
  | No_valid_messages nat
  | Report "('x, 'g) chat_report"

definition analyze_chat ::
  "strptime \<Rightarrow> scorers \<Rightarrow> (string \<Rightarrow> exn + 'x) \<Rightarrow> ('x analyzed_message list \<Rightarrow> exn + 'g)
     \<Rightarrow> string \<Rightarrow> ('x, 'g) chat_analysis" where
  "analyze_chat sp S annotate aggregate chat_content =
     (case parse sp chat_content of (parsed, failed_lines) \<Rightarrow>
        if parsed = [] then No_valid_messages (length failed_lines)
        else
          (case analyze_loop S annotate parsed ([], []) of
             Inl e \<Rightarrow> Analysis_failed e
           | Inr (analyzed_messages, sentiments) \<Rightarrow>
               (let total = length analyzed_messages;
                    avg_sentiment =
                      (if sentiments \<noteq> []
                       then sum_list sentiments / of_nat (length sentiments) else 0);
                    overall =
                      (if avg_sentiment \<ge> 0.05 then ''Positive''
                       else if avg_sentiment \<le> - 0.05 then ''Negative''
                       else ''Neutral'')
                in case aggregate analyzed_messages of
                     Inl e \<Rightarrow> Analysis_failed e
                   | Inr agg \<Rightarrow>
                       Report \<lparr>total_messages = total,
                               overall_score = avg_sentiment,
                               overall_label = overall,
                               report_messages = analyzed_messages,
                               aggregates = agg,
                               debug_failed_lines = take 10 failed_lines,
                               debug_parsed_messages = length parsed\<rparr>)))"

section \<open>The specification's words\<close>

definition spec_clamp :: "real \<Rightarrow> real \<Rightarrow> real \<Rightarrow> real" where
  \<comment> \<open>the specification's \<open>clamp(x, lo, hi)\<close>\<close>
  "spec_clamp x lo hi = max lo (min hi x)"

section \<open>Example scorers\<close>

text \<open>
  Scorers for the concrete runs below: both return, the VADER scorer raises, the TextBlob
  scorer raises. No transformer pipeline is loaded.
\<close>

definition example_scorers :: scorers where
  "example_scorers =
     \<lparr>polarity_scores = (\<lambda>t. Inr 0.9), textblob_polarity = (\<lambda>t. Inr 0.8),
      run_transformers = (\<lambda>t. (None, None))\<rparr>"

definition vader_raising_scorers :: scorers where
  "vader_raising_scorers =
     \<lparr>polarity_scores = (\<lambda>t. Inl ''LookupError''), textblob_polarity = (\<lambda>t. Inr 0.8),
      run_transformers = (\<lambda>t. (None, None))\<rparr>"

definition textblob_raising_scorers :: scorers where
  "textblob_raising_scorers =
     \<lparr>polarity_scores = (\<lambda>t. Inr 0.9), textblob_polarity = (\<lambda>t. Inl ''LookupError''),
      run_transformers = (\<lambda>t. (None, None))\<rparr>"

section \<open>Example inputs\<close>

text \<open>
  The rows of \<open>strptime\<close> that the examples need: what the standard library returns for
  their two timestamps with the first format.
\<close>

definition example_strptime :: strptime where
  "example_strptime ts fmt =
     map_of [((''8/15/2024, 10:30 PM'', ''%m/%d/%Y, %I:%M %p''), ''2024-08-15T22:30:00''),
             ((''8/15/2024, 10:31 PM'', ''%m/%d/%Y, %I:%M %p''), ''2024-08-15T22:31:00'')]
       (ts, fmt)"

definition media_chat :: string where
  "media_chat =
     ''8/15/2024, 10:30 PM - Alice: <Media omitted>\<newline>8/15/2024, 10:31 PM - Bob: Hello''"

text \<open>Annotators and aggregations that raise nothing and report nothing.\<close>

definition plain_annotate :: "string \<Rightarrow> exn + unit" where
  "plain_annotate text = Inr ()"

definition plain_aggregate :: "unit analyzed_message list \<Rightarrow> exn + unit" where
  "plain_aggregate ms = Inr ()"


text \<open>Scorers at the scores \<open>0.07\<close> and \<open>0\<close>, between the thresholds of the two labellings.\<close>

definition boundary_scorers :: scorers where
  "boundary_scorers =
     \<lparr>polarity_scores = (\<lambda>t. Inr 0.07), textblob_polarity = (\<lambda>t. Inr 0),
      run_transformers = (\<lambda>t. (None, None))\<rparr>"

section \<open>The skipped messages, in the specification's words\<close>

text \<open>
  A body that is exactly \<open><Media omitted>\<close>, or empty or only whitespace; and what
  identifies a message in the output: its raw timestamp, sender and body.
\<close>

definition media_or_blank :: "string \<Rightarrow> bool" where
  "media_or_blank text = (text = ''<Media omitted>'' \<or> strip text = [])"

definition message_core :: "'a parsed_message_scheme \<Rightarrow> string \<times> string \<times> string" where
  "message_core m = (raw_timestamp m, sender m, message m)"

section \<open>The ensemble combiner\<close>

text \<open>
  C1. For scorer outputs with scores \<open>a\<close> (VADER) and \<open>b\<close> (TextBlob), the score of the
  ensemble is \<open>a * 0.6 + b * 0.4\<close>: exactly, hence within the tolerance \<open>1e-9\<close>. The bound
  of the scores to \<open>[-1, 1]\<close> is not needed.
\<close>

theorem ensemble_score_weighted:
  "score (ensemble_scores (Score_dict va) (Score_dict vb)) = score va * 0.6 + score vb * 0.4
   \<and> \<bar>score (ensemble_scores (Score_dict va) (Score_dict vb))
        - (score va * 0.6 + score vb * 0.4)\<bar> \<le> 1 / 10 ^ 9"
  by (simp add: ensemble_scores_def Let_def)

text \<open>
  C2. The label of the ensemble is \<open>Positive\<close> when its score is at least \<open>0.05\<close>,
  \<open>Negative\<close> when it is at most \<open>-0.05\<close>, and \<open>Neutral\<close> otherwise. Two scorers at
  \<open>0.05\<close> give the score \<open>0.05\<close> and \<open>Positive\<close>, at \<open>-0.05\<close> the score \<open>-0.05\<close> and
  \<open>Negative\<close>, at \<open>0.04999\<close> the score \<open>0.04999\<close> and \<open>Neutral\<close>.
\<close>

theorem ensemble_label_thresholds:
  "label (ensemble_scores va vb) =
     (if score (ensemble_scores va vb) \<ge> 0.05 then ''Positive''
      else if score (ensemble_scores va vb) \<le> - 0.05 then ''Negative''
      else ''Neutral'')
   \<and> score (ensemble_scores (Score_dict \<lparr>score = 0.05, label = la\<rparr>)
                              (Score_dict \<lparr>score = 0.05, label = lb\<rparr>)) = 0.05
   \<and> label (ensemble_scores (Score_dict \<lparr>score = 0.05, label = la\<rparr>)
                              (Score_dict \<lparr>score = 0.05, label = lb\<rparr>)) = ''Positive''
   \<and> score (ensemble_scores (Score_dict \<lparr>score = - 0.05, label = la\<rparr>)
                              (Score_dict \<lparr>score = - 0.05, label = lb\<rparr>)) = - 0.05
   \<and> label (ensemble_scores (Score_dict \<lparr>score = - 0.05, label = la\<rparr>)
                              (Score_dict \<lparr>score = - 0.05, label = lb\<rparr>)) = ''Negative''
   \<and> score (ensemble_scores (Score_dict \<lparr>score = 0.04999, label = la\<rparr>)
                              (Score_dict \<lparr>score = 0.04999, label = lb\<rparr>)) = 0.04999
   \<and> label (ensemble_scores (Score_dict \<lparr>score = 0.04999, label = la\<rparr>)
                              (Score_dict \<lparr>score = 0.04999, label = lb\<rparr>)) = ''Neutral''"
  by (simp add: ensemble_scores_def Let_def)

text \<open>
  C3. The confidence of the ensemble is \<open>clamp(|ensemble_score| * agreement, 0, 1)\<close> with
  \<open>ensemble_score = a * 0.6 + b * 0.4\<close> and \<open>agreement = clamp(1 - |a - b| / 2, 0, 1)\<close>,
  and lies in \<open>[0, 1]\<close>. The source has no lower
  clamp of the product: it is never negative. The bound of the scores to \<open>[-1, 1]\<close> is
  not needed.
\<close>

theorem ensemble_confidence_clamped:
  "ensemble_result.confidence (ensemble_scores (Score_dict va) (Score_dict vb)) =
     spec_clamp (\<bar>score va * 0.6 + score vb * 0.4\<bar>
                 * spec_clamp (1 - \<bar>score va - score vb\<bar> / 2) 0 1) 0 1
   \<and> 0 \<le> ensemble_result.confidence (ensemble_scores (Score_dict va) (Score_dict vb))
   \<and> ensemble_result.confidence (ensemble_scores (Score_dict va) (Score_dict vb)) \<le> 1"
proof -
  define e where "e = \<bar>score va * 0.6 + score vb * 0.4\<bar>"
  define g where "g = max 0 (min 1 (1 - \<bar>score va - score vb\<bar> / 2))"
  have e0: "0 \<le> e" and g0: "0 \<le> g" by (simp_all add: e_def g_def)
  have c: "ensemble_result.confidence (ensemble_scores (Score_dict va) (Score_dict vb))
           = min (e * g) 1"
    by (simp add: ensemble_scores_def Let_def e_def g_def)
  have p: "0 \<le> e * g" using e0 g0 by simp
  have s: "spec_clamp (e * spec_clamp (1 - \<bar>score va - score vb\<bar> / 2) 0 1) 0 1 = min (e * g) 1"
    using p by (simp add: spec_clamp_def g_def min_def max_def)
  show ?thesis unfolding c using s p by (simp add: e_def)
qed

section \<open>The explanation engine\<close>

lemma mixed_subtle_distinct: "mixed_reason \<noteq> subtle_reason"
  by (simp add: mixed_reason_def subtle_reason_def)

text \<open>
  C5, as amended. \<open>find_disagreements\<close> returns a dict exactly when the labels that the
  engine gives to the two scores (\<open>_score_to_label\<close>, with the strict thresholds \<open>0.1\<close> and
  \<open>-0.1\<close> for both scorers) differ, and \<open>None\<close> otherwise. The
  reason of a dict is the mixed or complex sentiment one exactly when the scores differ
  by more than \<open>0.5\<close>, and the subtle indicators one otherwise; the two texts differ.
  \<open>find_disagreements(0.5, 0.5)\<close> is \<open>None\<close>; \<open>find_disagreements(0.8, -0.2)\<close> is a dict
  with the mixed reason.
\<close>

theorem find_disagreements_iff:
  "(find_disagreements a b \<noteq> None) = (score_to_label a \<noteq> score_to_label b)
   \<and> map_option possible_reason (find_disagreements a b) =
       (if score_to_label a = score_to_label b then None
        else Some (if \<bar>a - b\<bar> > 0.5 then mixed_reason else subtle_reason))
   \<and> mixed_reason \<noteq> subtle_reason
   \<and> find_disagreements 0.5 0.5 = None
   \<and> find_disagreements 0.8 (- 0.2) \<noteq> None
   \<and> map_option possible_reason (find_disagreements 0.8 (- 0.2)) = Some mixed_reason"
proof -
  have l: "score_to_label 0.8 \<noteq> score_to_label (- 0.2)"
    by (simp add: score_to_label_def)
  show ?thesis
    using l mixed_subtle_distinct
    by (simp add: find_disagreements_def explain_disagreement_def Let_def)
qed








section \<open>The sentiment service\<close>

lemma strip_empty_iff: "strip s = [] \<longleftrightarrow> list_all isspace s"
proof
  assume e: "strip s = []"
  then have a: "\<forall>x \<in> set (dropWhile isspace s). isspace x"
    by (simp add: strip_def dropWhile_eq_Nil_conv)
  have "dropWhile isspace s = []"
  proof (rule ccontr)
    assume n: "dropWhile isspace s \<noteq> []"
    then have "\<not> isspace (hd (dropWhile isspace s))" by (rule hd_dropWhile)
    moreover have "hd (dropWhile isspace s) \<in> set (dropWhile isspace s)" using n by simp
    ultimately show False using a by blast
  qed
  then show "list_all isspace s" by (simp add: dropWhile_eq_Nil_conv list_all_iff)
next
  assume "list_all isspace s"
  then have d: "dropWhile isspace s = []" by (simp add: dropWhile_eq_Nil_conv list_all_iff)
  show "strip s = []" by (simp add: strip_def d)
qed

text \<open>
  C6. For a text that is empty or only whitespace, \<open>analyze\<close> returns the dict with the
  scores and the confidence \<open>0.0\<close> and every label \<open>Neutral\<close>, and invokes no scorer.
\<close>

theorem analyze_blank_text:
  assumes "list_all isspace text"
  shows "fst (analyze S text) =
           \<lparr>vader_score = 0, vader_label = ''Neutral'',
            textblob_score = 0, textblob_label = ''Neutral'',
            ensemble_score = 0, ensemble_label = ''Neutral'',
            confidence = 0, transformers = None\<rparr>
         \<and> snd (analyze S text) = []"
proof -
  have "strip text = []" using assms by (simp add: strip_empty_iff)
  then show ?thesis by (simp add: analyze_def neutral_sentiment_def)
qed

theorem analyze_blank_text_witness:
  "list_all isspace [CHR '' '', CHR 0x09, CHR 0x0A]
   \<and> analyze example_scorers [CHR '' '', CHR 0x09, CHR 0x0A] = (neutral_sentiment, [])
   \<and> analyze example_scorers [] = (neutral_sentiment, [])
   \<and> snd (analyze example_scorers ''ok'') \<noteq> []"
proof -
  have h: "list_all isspace [CHR '' '', CHR 0x09, CHR 0x0A]" by (simp add: isspace_def)
  have h0: "list_all isspace []" by simp
  have n: "strip ''ok'' \<noteq> []" by (simp add: strip_def isspace_def)
  have r: "snd (analyze example_scorers ''ok'') \<noteq> []"
    using n by (simp add: analyze_def analyze_vader_def example_scorers_def Let_def)
  show ?thesis
    using h r analyze_blank_text [OF h, of example_scorers]
      analyze_blank_text [OF h0, of example_scorers]
    by (simp add: neutral_sentiment_def prod_eq_iff)
qed

text \<open>
  What an exception of one scorer does to \<open>analyze\<close> on a text that is not blank. One
  of TextBlob is caught in \<open>_analyze_textblob\<close>: the VADER result stays. One of VADER is
  caught by \<open>analyze\<close> only, which gives up the TextBlob result too.
\<close>

lemma textblob_failure_is_local:
  assumes "textblob_polarity S text = Inl e" and "polarity_scores S text = Inr v"
    and "strip text \<noteq> []"
  shows "vader_score (fst (analyze S text)) = v
         \<and> textblob_score (fst (analyze S text)) = 0
         \<and> textblob_label (fst (analyze S text)) = ''Neutral''
         \<and> ensemble_score (fst (analyze S text)) = v * 0.6"
  using assms
  by (simp add: analyze_def analyze_vader_def analyze_textblob_def ensemble_scores_def Let_def)

lemma vader_failure_is_global:
  assumes "polarity_scores S text = Inl e" and "strip text \<noteq> []"
  shows "analyze S text = (neutral_sentiment, [Vader_call text])"
  using assms by (simp add: analyze_def analyze_vader_def)

text \<open>
  C4 fails for the VADER scorer. On the text \<open>great\<close>, with a VADER scorer that raises and
  a TextBlob scorer that returns \<open>0.8\<close>, \<open>analyze\<close> returns the all-neutral dict: the
  TextBlob score is reported as \<open>0.0\<close>, and TextBlob is not even invoked. When it is the
  TextBlob scorer that raises, the VADER score \<open>0.9\<close> stays and only TextBlob is
  neutral.
\<close>

theorem vader_exception_zeroes_textblob:
  "textblob_polarity vader_raising_scorers ''great'' = Inr 0.8
   \<and> analyze vader_raising_scorers ''great'' = (neutral_sentiment, [Vader_call ''great''])
   \<and> textblob_score (fst (analyze vader_raising_scorers ''great'')) = 0
   \<and> vader_score (fst (analyze textblob_raising_scorers ''great'')) = 0.9
   \<and> textblob_score (fst (analyze textblob_raising_scorers ''great'')) = 0
   \<and> textblob_label (fst (analyze textblob_raising_scorers ''great'')) = ''Neutral''"
proof -
  have n: "strip ''great'' \<noteq> []" by (simp add: strip_def isspace_def)
  show ?thesis
    using n
    by (simp add: analyze_def analyze_vader_def analyze_textblob_def vader_raising_scorers_def
        textblob_raising_scorers_def neutral_sentiment_def Let_def)
qed

text \<open>
  The labels that \<open>find_disagreements\<close> compares are the engine's own, with the strict
  thresholds \<open>0.1\<close> and \<open>-0.1\<close> for both scorers. The label that \<open>analyze\<close> stores for the
  VADER scorer has the thresholds \<open>0.05\<close> and \<open>-0.05\<close>: at a VADER score of \<open>0.07\<close> and a
  TextBlob score of \<open>0\<close> the stored labels differ and the engine reports no disagreement.
\<close>

lemma stored_labels_are_not_the_engine_labels:
  assumes "polarity_scores S text = Inr 0.07" and "textblob_polarity S text = Inr 0"
    and "strip text \<noteq> []"
  shows "vader_label (fst (analyze S text)) = ''Positive''
         \<and> textblob_label (fst (analyze S text)) = ''Neutral''
         \<and> find_disagreements (vader_score (fst (analyze S text)))
              (textblob_score (fst (analyze S text))) = None"
  using assms
  by (simp add: analyze_def analyze_vader_def analyze_textblob_def find_disagreements_def
      score_to_label_def Let_def)

text \<open>
  C5, as stated, fails: with a VADER score of \<open>0.07\<close> and a TextBlob score of \<open>0\<close>, the
  label of the VADER scorer is \<open>Positive\<close> and that of the TextBlob scorer is \<open>Neutral\<close>,
  and \<open>find_disagreements\<close> on the two scores is \<open>None\<close>.
\<close>

theorem find_disagreements_scorer_labels_counterexample:
  "vader_score (fst (analyze boundary_scorers ''ok'')) = 0.07
   \<and> textblob_score (fst (analyze boundary_scorers ''ok'')) = 0
   \<and> vader_label (fst (analyze boundary_scorers ''ok'')) = ''Positive''
   \<and> textblob_label (fst (analyze boundary_scorers ''ok'')) = ''Neutral''
   \<and> find_disagreements 0.07 0 = None
   \<and> \<not> ((find_disagreements (vader_score (fst (analyze boundary_scorers ''ok'')))
            (textblob_score (fst (analyze boundary_scorers ''ok''))) \<noteq> None)
          = (vader_label (fst (analyze boundary_scorers ''ok''))
             \<noteq> textblob_label (fst (analyze boundary_scorers ''ok''))))"
proof -
  have n: "strip ''ok'' \<noteq> []" by (simp add: strip_def isspace_def)
  show ?thesis
    using n
    by (simp add: analyze_def analyze_vader_def analyze_textblob_def boundary_scorers_def
        find_disagreements_def score_to_label_def Let_def)
qed

section \<open>The line parser\<close>

lemma parse_from_Nil: "parse_from sp st [] = st"
  by (simp add: parse_from_def)

lemma parse_lines_split:
  "parse_lines sp (pre @ line # rest)
     = parse_from sp (parse_line sp (parse_lines sp pre) line) rest"
  by (simp add: parse_lines_def parse_from_def)

lemma isdigit_not_isspace: "isdigit c \<Longrightarrow> \<not> isspace c"
  by (auto simp: isdigit_def isspace_def Let_def)

lemma strip_nonempty_hd:
  assumes "s \<noteq> []" and "\<not> isspace (hd s)"
  shows "strip s \<noteq> []"
proof -
  have "\<not> list_all isspace s" using assms by (cases s) simp_all
  then show ?thesis by (simp add: strip_empty_iff)
qed

lemma digits_match_hd:
  assumes "rmatch (digits lo hi) (s, caps) \<noteq> []" and "0 < lo"
  shows "s \<noteq> [] \<and> isdigit (hd s)"
proof -
  have "rep_counts lo (Some hi) True (length (takeWhile isdigit s)) \<noteq> []"
    using assms(1) by (simp add: digits_def)
  then have "lo \<le> length (takeWhile isdigit s)"
    by (simp add: rep_counts_def Let_def split: if_splits)
  then have "takeWhile isdigit s \<noteq> []" using assms(2) by auto
  then show ?thesis by (cases s) (auto split: if_splits)
qed

lemma rmatch_Conc_first: "rmatch (Conc a b) st \<noteq> [] \<Longrightarrow> rmatch a st \<noteq> []"
  by auto

lemma rmatch_Grp_inner: "rmatch (Grp name a) (s, caps) \<noteq> [] \<Longrightarrow> rmatch a (s, caps) \<noteq> []"
  by auto

lemma rmatch_Alt_cases:
  "rmatch (Alt a b) st \<noteq> [] \<Longrightarrow> rmatch a st \<noteq> [] \<or> rmatch b st \<noteq> []"
  by auto

lemma START_RE_starts_with_digit:
  assumes "rmatch START_RE (line, []) \<noteq> []"
  shows "line \<noteq> [] \<and> isdigit (hd line)"
proof -
  let ?A = "seqs [digits 1 2, Cls date_sep, digits 1 2, Cls date_sep, digits 2 4]"
  let ?B = "seqs [digits 4 4, lit CHR ''-'', digits 1 2, lit CHR ''-'', digits 1 2]"
  have "rmatch (Grp ''date'' (Alt ?A ?B)) (line, []) \<noteq> []"
    using assms unfolding START_RE_def seqs.simps by (rule rmatch_Conc_first)
  then have "rmatch (Alt ?A ?B) (line, []) \<noteq> []" by (rule rmatch_Grp_inner)
  then have "rmatch ?A (line, []) \<noteq> [] \<or> rmatch ?B (line, []) \<noteq> []"
    by (rule rmatch_Alt_cases)
  then show ?thesis
  proof
    assume "rmatch ?A (line, []) \<noteq> []"
    then have "rmatch (digits 1 2) (line, []) \<noteq> []"
      unfolding seqs.simps by (rule rmatch_Conc_first)
    then show ?thesis by (rule digits_match_hd) simp
  next
    assume "rmatch ?B (line, []) \<noteq> []"
    then have "rmatch (digits 4 4) (line, []) \<noteq> []"
      unfolding seqs.simps by (rule rmatch_Conc_first)
    then show ?thesis by (rule digits_match_hd) simp
  qed
qed

lemma START_RE_match_nonblank:
  assumes "START_RE_match line = Some g"
  shows "strip line \<noteq> []"
proof -
  have "rmatch START_RE (line, []) \<noteq> []"
    using assms by (auto simp: START_RE_match_def re_match_def split: list.splits option.splits)
  then have "line \<noteq> [] \<and> isdigit (hd line)" by (rule START_RE_starts_with_digit)
  then show ?thesis by (simp add: strip_nonempty_hd isdigit_not_isspace)
qed

lemma sublist_dropWhile_keeps:
  assumes "sublist kw s" and "kw \<noteq> []" and "\<not> P (hd kw)"
  shows "sublist kw (dropWhile P s)"
  using assms
proof (induction s)
  case Nil
  then show ?case by simp
next
  case (Cons c cs)
  show ?case
  proof (cases "P c")
    case False
    then show ?thesis using Cons.prems by simp
  next
    case True
    have "\<not> prefix kw (c # cs)"
    proof
      assume "prefix kw (c # cs)"
      then have "hd kw = c" using Cons.prems(2) by (cases kw) auto
      then show False using True Cons.prems(3) by simp
    qed
    then have "sublist kw cs" using Cons.prems(1) by (simp add: sublist_Cons_right)
    then show ?thesis using True Cons.IH Cons.prems by simp
  qed
qed

lemma sublist_strip_keeps:
  assumes "sublist kw s" and "kw \<noteq> []" and "\<not> isspace (hd kw)" and "\<not> isspace (last kw)"
  shows "sublist kw (strip s)"
proof -
  have a: "sublist kw (dropWhile isspace s)"
    using assms(1-3) by (rule sublist_dropWhile_keeps)
  have "sublist (rev kw) (dropWhile isspace (rev (dropWhile isspace s)))"
  proof (rule sublist_dropWhile_keeps)
    show "sublist (rev kw) (rev (dropWhile isspace s))" using a by simp
    show "rev kw \<noteq> []" using assms(2) by simp
    show "\<not> isspace (hd (rev kw))" using assms(2,4) by (simp add: hd_rev)
  qed
  then show ?thesis by (simp add: strip_def sublist_rev_right)
qed

lemma created_group_in_body:
  assumes "sublist ''created group'' body"
  shows "list_ex (\<lambda>kw. sublist kw (lower (strip body))) system_keywords"
proof -
  have "sublist ''created group'' (strip body)"
    using assms by (rule sublist_strip_keeps) (simp_all add: isspace_def)
  then have "sublist (lower ''created group'') (lower (strip body))"
    unfolding lower_def by (rule map_mono_sublist)
  moreover have "lower ''created group'' = ''created group''"
    by (simp add: lower_def lower_char_def)
  ultimately show ?thesis by (simp add: system_keywords_def)
qed

lemma hello_world_merged:
  "map message (fst (parse sp ''8/15/2024, 10:30 PM - Alice: Hello\<newline>world''))
     = [''Hello\<newline>world'']
   \<and> snd (parse sp ''8/15/2024, 10:30 PM - Alice: Hello\<newline>world'') = []"
  by code_simp

text \<open>
  C7. A line that is not blank and does not match the message-start pattern, after the
  lines \<open>pre\<close>: when \<open>pre\<close> gave a message, the trimmed line is appended to the body of
  the last one after a line feed; when it gave none, the line, as it is, is appended to the
  failed lines. The chat of the line \<open>8/15/2024, 10:30 PM - Alice: Hello\<close> followed by the
  line \<open>world\<close> gives one message, with the body of \<open>Hello\<close>, a line feed and \<open>world\<close>,
  and no failed line.
\<close>

theorem continuation_line_merge:
  assumes "splitlines content = pre @ line # rest"
    and "strip line \<noteq> []"
    and "START_RE_match line = None"
  shows "parse sp content =
           parse_from sp
             (case parse_lines sp pre of
                (ms, fl) \<Rightarrow>
                  if ms \<noteq> []
                  then (butlast ms @
                          [(last ms)\<lparr>message := message (last ms) @ [CHR 0x0A] @ strip line\<rparr>],
                        fl)
                  else ([], fl @ [line]))
             rest
         \<and> map message (fst (parse sp ''8/15/2024, 10:30 PM - Alice: Hello\<newline>world''))
             = [''Hello\<newline>world'']
         \<and> snd (parse sp ''8/15/2024, 10:30 PM - Alice: Hello\<newline>world'') = []"
  using assms hello_world_merged
  by (simp add: parse_def parse_lines_split parse_line_def split: prod.splits)

lemma hello_line_match:
  "START_RE_match ''8/15/2024, 10:30 PM - Alice: Hello''
     = Some (''8/15/2024'', ''10:30 PM'', ''Alice'', ''Hello'')"
  by code_simp

lemma world_line_no_match: "START_RE_match ''world'' = None"
  by code_simp

lemma hello_world_lines:
  "splitlines ''8/15/2024, 10:30 PM - Alice: Hello\<newline>world''
     = [''8/15/2024, 10:30 PM - Alice: Hello''] @ ''world'' # []"
  by code_simp

lemma hello_line_parsed:
  "parse_lines example_strptime [''8/15/2024, 10:30 PM - Alice: Hello'']
     = ([\<lparr>timestamp = ''2024-08-15T22:30:00'', raw_timestamp = ''8/15/2024, 10:30 PM'',
          sender = ''Alice'', message = ''Hello''\<rparr>], [])"
  by code_simp

theorem continuation_line_merge_witness:
  "parse example_strptime ''8/15/2024, 10:30 PM - Alice: Hello\<newline>world''
     = ([\<lparr>timestamp = ''2024-08-15T22:30:00'', raw_timestamp = ''8/15/2024, 10:30 PM'',
          sender = ''Alice'', message = ''Hello\<newline>world''\<rparr>], [])
   \<and> parse example_strptime ''world'' = ([], [''world''])"
proof -
  have w: "strip ''world'' = ''world''" by (simp add: strip_def isspace_def)
  have s: "strip ''world'' \<noteq> []" by (simp add: w)
  have l0: "splitlines ''world'' = [] @ ''world'' # []" by code_simp
  have p0: "parse_lines example_strptime [] = ([], [])"
    by (simp add: parse_lines_def parse_from_Nil)
  have a: "parse example_strptime ''8/15/2024, 10:30 PM - Alice: Hello\<newline>world''
     = ([\<lparr>timestamp = ''2024-08-15T22:30:00'', raw_timestamp = ''8/15/2024, 10:30 PM'',
          sender = ''Alice'', message = ''Hello\<newline>world''\<rparr>], [])"
    using continuation_line_merge [OF hello_world_lines s world_line_no_match, of example_strptime]
    by (simp add: hello_line_parsed w parse_from_Nil)
  have b: "parse example_strptime ''world'' = ([], [''world''])"
    using continuation_line_merge [OF l0 s world_line_no_match, of example_strptime]
    by (simp add: p0 parse_from_Nil)
  show ?thesis using a b by simp
qed

text \<open>
  C8. A line that matches the message-start pattern adds a message whose sender is
  \<open>System\<close> when the lowercased sender name is one of the aliases, or the lowercased body
  contains one of the keywords; so it is for every body that contains \<open>created group\<close>,
  whatever the sender matched.
\<close>

theorem system_reclassification:
  assumes "splitlines content = pre @ line # rest"
    and "START_RE_match line = Some (date_str, time_str, sender_group, message_group)"
    and "lower (strip (filter isprintable (strip sender_group))) \<in> set system_aliases
         \<or> list_ex (\<lambda>kw. sublist kw (lower (strip message_group))) system_keywords
         \<or> sublist ''created group'' message_group"
  shows "\<exists>new. parse sp content
                  = parse_from sp
                      (fst (parse_lines sp pre) @ [new], snd (parse_lines sp pre)) rest
           \<and> sender new = ''System'' \<and> message new = strip message_group"
proof -
  have nb: "strip line \<noteq> []" using assms(2) by (rule START_RE_match_nonblank)
  have c: "lower (strip (filter isprintable (strip sender_group))) \<in> set system_aliases
         \<or> list_ex (\<lambda>kw. sublist kw (lower (strip message_group))) system_keywords"
    using assms(3) created_group_in_body [of message_group] by blast
  obtain ms fl where p: "parse_lines sp pre = (ms, fl)"
    by (cases "parse_lines sp pre")
  define new where
    "new = \<lparr>timestamp = try_formats sp (date_str @ '', '' @ time_str) timestamp_formats,
            raw_timestamp = date_str @ '', '' @ time_str,
            sender = ''System'', message = strip message_group\<rparr>"
  have step: "parse_line sp (ms, fl) line = (ms @ [new], fl)"
    using nb assms(2) c by (simp add: parse_line_def Let_def new_def)
  have whole: "parse sp content = parse_from sp (ms @ [new], fl) rest"
    by (simp add: parse_def assms(1) parse_lines_split p step)
  have "sender new = ''System''" and "message new = strip message_group"
    by (simp_all add: new_def)
  then show ?thesis using whole p by (intro exI [of _ new]) simp
qed

theorem system_reclassification_witness:
  "START_RE_match ''8/15/2024, 10:31 PM - Alice: I created group Friends''
     = Some (''8/15/2024'', ''10:31 PM'', ''Alice'', ''I created group Friends'')
   \<and> sublist ''created group'' ''I created group Friends''
   \<and> map sender (fst (parse example_strptime
          ''8/15/2024, 10:31 PM - Alice: I created group Friends'')) = [''System'']"
proof -
  have l: "splitlines ''8/15/2024, 10:31 PM - Alice: I created group Friends''
             = [] @ ''8/15/2024, 10:31 PM - Alice: I created group Friends'' # []"
    by code_simp
  have m: "START_RE_match ''8/15/2024, 10:31 PM - Alice: I created group Friends''
             = Some (''8/15/2024'', ''10:31 PM'', ''Alice'', ''I created group Friends'')"
    by code_simp
  have k: "sublist ''created group'' ''I created group Friends''"
    by code_simp
  have k': "lower (strip (filter isprintable (strip ''Alice''))) \<in> set system_aliases
         \<or> list_ex (\<lambda>kw. sublist kw (lower (strip ''I created group Friends''))) system_keywords
         \<or> sublist ''created group'' ''I created group Friends''"
    using k by simp
  have p0: "parse_lines example_strptime [] = ([], [])"
    by (simp add: parse_lines_def parse_from_Nil)
  obtain new where
    "parse example_strptime ''8/15/2024, 10:31 PM - Alice: I created group Friends''
       = parse_from example_strptime
           (fst (parse_lines example_strptime []) @ [new],
            snd (parse_lines example_strptime [])) []"
    and "sender new = ''System''"
    using system_reclassification [OF l m k', of example_strptime] by blast
  then have "map sender (fst (parse example_strptime
          ''8/15/2024, 10:31 PM - Alice: I created group Friends'')) = [''System'']"
    by (simp add: p0 parse_from_Nil)
  then show ?thesis using m k by simp
qed

section \<open>The chat analysis\<close>

lemma analyze_loop_filters:
  assumes "analyze_loop S annotate ps (am0, s0) = Inr (am, s)"
  shows "map message_core am
           = map message_core am0
             @ map message_core (filter (\<lambda>m. \<not> media_or_blank (message m)) ps)
         \<and> length s = length s0 + length (filter (\<lambda>m. \<not> media_or_blank (message m)) ps)"
  using assms
proof (induction ps arbitrary: am0 s0)
  case Nil
  then show ?case by simp
next
  case (Cons msg rest)
  show ?case
  proof (cases "media_or_blank (message msg)")
    case True
    then have "analyze_loop S annotate rest (am0, s0) = Inr (am, s)"
      using Cons.prems by (simp add: media_or_blank_def)
    then show ?thesis using Cons.IH True by simp
  next
    case False
    then obtain nt where n: "annotate (message msg) = Inr nt"
      using Cons.prems by (cases "annotate (message msg)") (simp_all add: media_or_blank_def Let_def)
    let ?new = "\<lparr>timestamp = (if timestamp msg \<noteq> [] then timestamp msg else raw_timestamp msg),
                  raw_timestamp = raw_timestamp msg, sender = sender msg,
                  message = message msg,
                  sentiment_of = fst (analyze S (message msg)), annotations = nt\<rparr>"
    have "analyze_loop S annotate rest
            (am0 @ [?new], s0 @ [ensemble_score (fst (analyze S (message msg)))]) = Inr (am, s)"
      using Cons.prems False n by (simp add: media_or_blank_def Let_def)
    from Cons.IH [OF this] show ?thesis
      using False by (simp add: message_core_def)
  qed
qed

lemma chat_report_shape:
  assumes "analyze_chat sp S annotate aggregate content = Report r"
  shows "map message_core (report_messages r)
           = map message_core
               (filter (\<lambda>m. \<not> media_or_blank (message m)) (fst (parse sp content)))
         \<and> list_all (\<lambda>m. \<not> media_or_blank (message m)) (report_messages r)
         \<and> total_messages r = length (report_messages r)
         \<and> total_messages r
             = length (filter (\<lambda>m. \<not> media_or_blank (message m)) (fst (parse sp content)))
         \<and> debug_parsed_messages r = length (fst (parse sp content))
         \<and> total_messages r \<le> debug_parsed_messages r"
proof -
  obtain parsed failed where p: "parse sp content = (parsed, failed)"
    by (cases "parse sp content")
  have ne: "parsed \<noteq> []" using assms p by (auto simp: analyze_chat_def)
  obtain am s where l: "analyze_loop S annotate parsed ([], []) = Inr (am, s)"
    using assms p ne
    by (cases "analyze_loop S annotate parsed ([], [])") (auto simp: analyze_chat_def)
  obtain agg where g: "aggregate am = Inr agg"
    using assms p ne l by (cases "aggregate am") (auto simp: analyze_chat_def Let_def)
  have r: "report_messages r = am \<and> total_messages r = length am
           \<and> debug_parsed_messages r = length parsed"
    using assms p ne l g by (auto simp: analyze_chat_def Let_def)
  let ?kept = "filter (\<lambda>m. \<not> media_or_blank (message m)) parsed"
  have f: "map message_core am = map message_core ?kept"
    using analyze_loop_filters [OF l] by simp
  have len: "length am = length ?kept"
    using f by (metis length_map)
  have "map (\<lambda>m. message m) am = map (\<lambda>m. message m) ?kept"
  proof -
    have "map (\<lambda>c. snd (snd c)) (map message_core am)
            = map (\<lambda>c. snd (snd c)) (map message_core ?kept)"
      using f by simp
    then show ?thesis by (simp add: message_core_def comp_def)
  qed
  then have "set (map (\<lambda>m. message m) am) \<subseteq> {t. \<not> media_or_blank t}"
    by auto
  then have a: "list_all (\<lambda>m. \<not> media_or_blank (message m)) am"
    by (auto simp: list_all_iff)
  have le: "length ?kept \<le> length parsed" by simp
  show ?thesis using r f len a le p by simp
qed

lemma media_chat_parsed:
  "parse sp media_chat =
     ([\<lparr>timestamp = try_formats sp ''8/15/2024, 10:30 PM'' timestamp_formats,
        raw_timestamp = ''8/15/2024, 10:30 PM'', sender = ''Alice'',
        message = ''<Media omitted>''\<rparr>,
       \<lparr>timestamp = try_formats sp ''8/15/2024, 10:31 PM'' timestamp_formats,
        raw_timestamp = ''8/15/2024, 10:31 PM'', sender = ''Bob'',
        message = ''Hello''\<rparr>], [])"
  by code_simp

lemma hello_kept: "\<not> media_or_blank ''Hello''"
  by (simp add: media_or_blank_def strip_def isspace_def)

lemma media_skipped: "media_or_blank ''<Media omitted>''"
  by (simp add: media_or_blank_def)

lemma media_chat_report:
  "\<exists>r. analyze_chat sp S plain_annotate plain_aggregate media_chat = Report r
        \<and> total_messages r = 1 \<and> debug_parsed_messages r = 2"
  using hello_kept
  by (simp add: analyze_chat_def media_chat_parsed media_or_blank_def plain_annotate_def
      plain_aggregate_def Let_def)

text \<open>
  C10. In a full report, the messages are the parsed messages whose body is neither
  \<open><Media omitted>\<close> nor blank, in order: no skipped message is among them.
  \<open>total_messages\<close> counts them, so it is at most the number of parsed messages, and for
  some chats it is less.
\<close>

theorem media_and_blank_messages_skipped:
  assumes "analyze_chat sp S annotate aggregate content = Report r"
  shows "map message_core (report_messages r)
           = map message_core
               (filter (\<lambda>m. \<not> media_or_blank (message m)) (fst (parse sp content)))
         \<and> list_all (\<lambda>m. \<not> media_or_blank (message m)) (report_messages r)
         \<and> total_messages r = length (report_messages r)
         \<and> total_messages r
             = length (filter (\<lambda>m. \<not> media_or_blank (message m)) (fst (parse sp content)))
         \<and> debug_parsed_messages r = length (fst (parse sp content))
         \<and> total_messages r \<le> debug_parsed_messages r
         \<and> (\<exists>c r'. analyze_chat sp S plain_annotate plain_aggregate c = Report r'
                 \<and> total_messages r' < debug_parsed_messages r')"
proof -
  obtain r' where "analyze_chat sp S plain_annotate plain_aggregate media_chat = Report r'"
    and "total_messages r' = 1" and "debug_parsed_messages r' = 2"
    using media_chat_report by blast
  then have "\<exists>c r'. analyze_chat sp S plain_annotate plain_aggregate c = Report r'
                 \<and> total_messages r' < debug_parsed_messages r'"
    by (intro exI [of _ media_chat] exI [of _ r']) simp
  then show ?thesis using chat_report_shape [OF assms] by simp
qed

theorem media_and_blank_messages_skipped_witness:
  "\<exists>r. analyze_chat example_strptime example_scorers plain_annotate plain_aggregate media_chat
          = Report r
        \<and> map message_core (report_messages r) = [(''8/15/2024, 10:31 PM'', ''Bob'', ''Hello'')]
        \<and> total_messages r = 1
        \<and> debug_parsed_messages r = 2"
proof -
  obtain r where
    r: "analyze_chat example_strptime example_scorers plain_annotate plain_aggregate media_chat
          = Report r"
    using media_chat_report by blast
  have "map message_core (report_messages r) = [(''8/15/2024, 10:31 PM'', ''Bob'', ''Hello'')]
        \<and> total_messages r = 1 \<and> debug_parsed_messages r = 2"
    using media_and_blank_messages_skipped [OF r]
    by (simp add: media_chat_parsed hello_kept media_skipped message_core_def)
  then show ?thesis using r by (intro exI [of _ r]) simp
qed

end
